theory Spec2Isabelle
  imports Main
begin

section \<open>Python values and dictionaries\<close>

text \<open>
  The values that end up in an audit record: \<open>None\<close>, booleans, integers, strings and
  nested dictionaries. A Python \<open>dict\<close> keeps its keys in insertion order, and
  \<open>json.dumps\<close> writes them in that order, so a dictionary is an association list
  with distinct keys.
\<close>

datatype pyval =
    PNone
  | PBool bool
  | PInt int
  | PStr string
  | PDict "(string \<times> pyval) list"

type_synonym pydict = "(string \<times> pyval) list"

text \<open>\<open>d[k] = v\<close>: an existing key keeps its position, a new key goes last.\<close>

fun dict_setitem :: "string \<Rightarrow> pyval \<Rightarrow> pydict \<Rightarrow> pydict" where
  "dict_setitem k v [] = [(k, v)]"
| "dict_setitem k v ((k', v') # kvs) =
     (if k' = k then (k', v) # kvs else (k', v') # dict_setitem k v kvs)"

text \<open>\<open>d.update(other)\<close>: the items of \<open>other\<close> are stored one after the other.\<close>

fun dict_update :: "pydict \<Rightarrow> pydict \<Rightarrow> pydict" where
  "dict_update d [] = d"
| "dict_update d ((k, v) # kvs) = dict_update (dict_setitem k v d) kvs"

text \<open>An \<open>Optional[str]\<close> attribute as a value.\<close>

definition opt_str :: "string option \<Rightarrow> pyval" where
  "opt_str x = (case x of None \<Rightarrow> PNone | Some s \<Rightarrow> PStr s)"

section \<open>The environment read at construction\<close>

text \<open>
  \<open>AuditEvent.__init__\<close> reads two things from outside: \<open>str(uuid4())\<close> and
  \<open>datetime.utcnow().isoformat()\<close>. A value of \<open>env\<close> is what these two calls
  return at one moment.
\<close>

record env =
  uuid4 :: string
  utcnow :: string

section \<open>AuditEvent\<close>

record AuditEvent =
  id' :: string
  timestamp :: string
  user_id :: "string option"
  user_role :: "string option"
  action :: string
  resource :: string
  resource_id :: "string option"
  outcome :: string
  source_ip :: string
  user_agent :: string
  session_id :: "string option"
  details :: pydict
  phi_accessed :: bool

text \<open>
  The constructor, every argument given (a caller that leaves an argument out passes the
  default of the signature: \<open>outcome = "success"\<close>, \<open>source_ip = "unknown"\<close>,
  \<open>user_agent = "unknown"\<close>, \<open>phi_accessed = False\<close>, \<open>None\<close> for the others).
  \<open>details or {}\<close> replaces \<open>None\<close> and the empty dictionary by a new empty one.
\<close>

definition AuditEvent_init ::
  "env \<Rightarrow> string \<Rightarrow> string \<Rightarrow> string \<Rightarrow> string option \<Rightarrow> string option \<Rightarrow> string option \<Rightarrow>
   string \<Rightarrow> string \<Rightarrow> string option \<Rightarrow> pydict option \<Rightarrow> bool \<Rightarrow> AuditEvent" where
  "AuditEvent_init e action_arg resource_arg outcome_arg user_id_arg user_role_arg
     resource_id_arg source_ip_arg user_agent_arg session_id_arg details_arg phi_accessed_arg =
     \<lparr> id' = uuid4 e,
       timestamp = utcnow e,
       user_id = user_id_arg,
       user_role = user_role_arg,
       action = action_arg,
       resource = resource_arg,
       resource_id = resource_id_arg,
       outcome = outcome_arg,
       source_ip = source_ip_arg,
       user_agent = user_agent_arg,
       session_id = session_id_arg,
       details = (case details_arg of None \<Rightarrow> [] | Some d \<Rightarrow> (if d = [] then [] else d)),
       phi_accessed = phi_accessed_arg \<rparr>"

definition to_dict :: "AuditEvent \<Rightarrow> pydict" where
  "to_dict self =
     [ (''id'', PStr (id' self)),
       (''timestamp'', PStr (timestamp self)),
       (''user_id'', opt_str (user_id self)),
       (''user_role'', opt_str (user_role self)),
       (''action'', PStr (action self)),
       (''resource'', PStr (resource self)),
       (''resource_id'', opt_str (resource_id self)),
       (''outcome'', PStr (outcome self)),
       (''source_ip'', PStr (source_ip self)),
       (''user_agent'', PStr (user_agent self)),
       (''session_id'', opt_str (session_id self)),
       (''details'', PDict (details self)),
       (''phi_accessed'', PBool (phi_accessed self)) ]"

text \<open>
  A call of the method \<open>to_dict\<close> at a moment when the clock and the identifier source
  read \<open>e\<close>: the dictionary it returns, and the instance as the call leaves it. The
  method only reads the attributes of \<open>self\<close>.
\<close>

definition call_to_dict :: "env \<Rightarrow> AuditEvent \<Rightarrow> pydict \<times> AuditEvent" where
  "call_to_dict e self = (to_dict self, self)"

text \<open>
  The audit channel is the logger \<open>brainsait.audit\<close>, at level \<open>INFO\<close>: the list of
  the records written so far, oldest first. \<open>log\<close> writes one line, the
  \<open>json.dumps\<close> of \<open>to_dict()\<close>; the channel keeps the record that line renders.
\<close>

type_synonym audit_channel = "pydict list"

definition log :: "AuditEvent \<Rightarrow> audit_channel \<Rightarrow> audit_channel" where
  "log self ch = ch @ [to_dict self]"

section \<open>Requests, responses and exceptions\<close>

record Address =
  host :: string
  port :: int

record URL =
  path :: string
  query :: string

text \<open>
  \<open>headers\<close> holds the header lines in order, names in lower case (as the server
  hands them over); \<open>client\<close> is \<open>None\<close> when the transport gives no peer address.
\<close>

record Request =
  headers :: "(string \<times> string) list"
  client :: "Address option"
  method' :: string
  url :: URL

text \<open>\<open>request.headers.get(key, dflt)\<close>: the first line named \<open>key\<close>.\<close>

definition headers_get :: "(string \<times> string) list \<Rightarrow> string \<Rightarrow> string \<Rightarrow> string" where
  "headers_get hs key dflt = (case map_of hs key of Some v \<Rightarrow> v | None \<Rightarrow> dflt)"

record Response =
  status_code :: int
  response_headers :: "(string \<times> string) list"
  body :: string

text \<open>
  A raised exception object, by what the middleware can observe of it:
  \<^item> \<open>type_name\<close>: the name of its class, \<open>type(e).__name__\<close>;
  \<^item> \<open>py_str\<close>: what the call \<open>str(e)\<close> does. It runs the class's
    \<open>__str__\<close>, which is code of the exception's author: \<open>Inr s\<close> when it
    returns the string \<open>s\<close>, \<open>Inl x\<close> when it ends with the exception \<open>x\<close>
    (raised by \<open>__str__\<close>, or the \<open>TypeError\<close> for a result that is no string);
  \<^item> \<open>is_Exception\<close>: whether it is an instance of \<open>Exception\<close> (and not only
    of \<open>BaseException\<close>, as \<open>asyncio.CancelledError\<close>, \<open>KeyboardInterrupt\<close>
    and \<open>SystemExit\<close> are).
\<close>

datatype PyException =
  PyException (type_name: string) (py_str: "PyException + string") (is_Exception: bool)

text \<open>
  What awaiting the downstream handler ends with. A handler that never ends gives no
  control back to \<open>dispatch\<close>, which then neither logs nor returns; the handlers
  considered here end, with a response or with an exception.
\<close>

datatype handler_result = Returned Response | Raised PyException

text \<open>
  The downstream handler \<open>call_next\<close> may itself write to the audit channel (a route
  handler calling \<open>log_audit_event\<close>), so it takes the channel and returns it.
\<close>

type_synonym handler = "Request \<Rightarrow> audit_channel \<Rightarrow> handler_result \<times> audit_channel"

section \<open>AuditMiddleware\<close>

text \<open>
  \<open>dispatch\<close> returns what its caller observes (the response returned, or the
  exception that propagates) together with the audit channel at that moment.
  \<open>except Exception\<close> catches the instances of \<open>Exception\<close> only; any other
  exception leaves the \<open>try\<close> statement without running the handler clause.
  Inside the clause, the dictionary given to \<open>details.update\<close> is built first, and
  \<open>str(e)\<close> is its first entry: when that call raises, its exception leaves the clause
  at once, before \<open>update\<close>, \<open>log\<close> and \<open>raise\<close>.
\<close>

definition dispatch :: "env \<Rightarrow> handler \<Rightarrow> Request \<Rightarrow> audit_channel \<Rightarrow> handler_result \<times> audit_channel" where
  "dispatch e call_next request ch =
     (let source_ip_v =
            headers_get (headers request) ''x-forwarded-for''
              (headers_get (headers request) ''x-real-ip''
                 (case client request of Some c \<Rightarrow> host c | None \<Rightarrow> ''unknown''));
          user_agent_v = headers_get (headers request) ''user-agent'' ''unknown'';
          audit_event =
            AuditEvent_init e ''api.request'' (path (url request)) ''success'' None None None
              source_ip_v user_agent_v None
              (Some [ (''method'', PStr (method' request)),
                      (''path'', PStr (path (url request))),
                      (''query'', if query (url request) \<noteq> [] then PStr (query (url request)) else PNone) ])
              False
      in case call_next request ch of
           (Returned response, ch1) \<Rightarrow>
             (let ev1 = audit_event\<lparr> outcome := (if status_code response < 400 then ''success'' else ''failure'') \<rparr>;
                  ev2 = ev1\<lparr> details := dict_update (details ev1)
                                [ (''status_code'', PInt (status_code response)),
                                  (''response_time_ms'', PNone) ] \<rparr>;
                  ch2 = log ev2 ch1
              in (Returned response, ch2))
         | (Raised exn, ch1) \<Rightarrow>
             (if is_Exception exn then
                (let ev1 = audit_event\<lparr> outcome := ''failure'' \<rparr>
                 in case py_str exn of
                      Inl raised \<Rightarrow> (Raised raised, ch1)
                    | Inr message \<Rightarrow>
                        (let ev2 = ev1\<lparr> details := dict_update (details ev1)
                                      [ (''error'', PStr message),
                                        (''exception_type'', PStr (type_name exn)) ] \<rparr>;
                             ch2 = log ev2 ch1
                         in (Raised exn, ch2)))
              else (Raised exn, ch1)))"

text \<open>The helper \<open>log_audit_event\<close>: builds an event and logs it at once.\<close>

definition log_audit_event ::
  "env \<Rightarrow> string \<Rightarrow> string \<Rightarrow> string \<Rightarrow> string option \<Rightarrow> string option \<Rightarrow> pydict option \<Rightarrow> bool \<Rightarrow>
   audit_channel \<Rightarrow> audit_channel" where
  "log_audit_event e action_arg resource_arg outcome_arg user_id_arg resource_id_arg details_arg
     phi_accessed_arg ch =
     log (AuditEvent_init e action_arg resource_arg outcome_arg user_id_arg None resource_id_arg
            ''unknown'' ''unknown'' None details_arg phi_accessed_arg) ch"

text \<open>
  The handler outcomes that the middleware observes: a returned response, or an exception
  that the clause \<open>except Exception\<close> matches.
\<close>

definition intercepted :: "handler_result \<Rightarrow> bool" where
  "intercepted r = (case r of Returned response \<Rightarrow> True | Raised exn \<Rightarrow> is_Exception exn)"

text \<open>
  The handler outcomes on which every call the middleware makes on the exception returns:
  for an exception that \<open>except Exception\<close> matches, \<open>str(e)\<close> returns a string
  (for any other outcome the middleware makes no such call).
\<close>

definition str_ok :: "handler_result \<Rightarrow> bool" where
  "str_ok r =
     (case r of
        Returned response \<Rightarrow> True
      | Raised exn \<Rightarrow>
          (if is_Exception exn then (case py_str exn of Inl raised \<Rightarrow> False | Inr message \<Rightarrow> True)
           else True))"

section \<open>Concrete requests and handlers\<close>

definition example_env :: env where
  "example_env = \<lparr> uuid4 = ''6f1c2a9e-0b7d-4c3a-9f55-2d8e4b1a7c10'', utcnow = ''2024-05-01T12:00:00.000123'' \<rparr>"

definition later_env :: env where
  "later_env = \<lparr> uuid4 = ''c0ffee00-1234-4abc-8def-001122334455'', utcnow = ''2024-05-01T12:00:07.500000'' \<rparr>"

text \<open>\<open>GET /api/products\<close>, no headers, no peer address.\<close>

definition products_request :: Request where
  "products_request =
     \<lparr> headers = [], client = None, method' = ''GET'',
       url = \<lparr> path = ''/api/products'', query = [] \<rparr> \<rparr>"

text \<open>A proxied request: all three sources of the caller's address are present.\<close>

definition proxied_request :: Request where
  "proxied_request =
     \<lparr> headers = [ (''user-agent'', ''curl/8.0''), (''x-real-ip'', ''198.51.100.7''),
                   (''x-forwarded-for'', ''203.0.113.5'') ],
       client = Some \<lparr> host = ''10.0.0.1'', port = 51234 \<rparr>, method' = ''GET'',
       url = \<lparr> path = ''/api/orders'', query = ''page=2'' \<rparr> \<rparr>"

definition ok_response :: Response where
  "ok_response = \<lparr> status_code = 200, response_headers = [(''content-type'', ''application/json'')],
                    body = ''{}'' \<rparr>"

definition not_found_response :: Response where
  "not_found_response = \<lparr> status_code = 404, response_headers = [], body = ''Not Found'' \<rparr>"

definition ok_handler :: handler where
  "ok_handler request ch = (Returned ok_response, ch)"

definition not_found_handler :: handler where
  "not_found_handler request ch = (Returned not_found_response, ch)"

text \<open>\<open>raise RuntimeError("boom")\<close>\<close>

definition boom :: PyException where
  "boom = PyException ''RuntimeError'' (Inr ''boom'') True"

definition boom_handler :: handler where
  "boom_handler request ch = (Raised boom, ch)"










definition login_event :: AuditEvent where
  "login_event =
     AuditEvent_init example_env ''user.login'' ''session'' ''success'' (Some ''u-17'') (Some ''admin'')
       None ''192.0.2.44'' ''Mozilla/5.0'' (Some ''s-9'') (Some [(''mfa'', PBool True)]) True"

section \<open>What one call of dispatch does\<close>

text \<open>
  The three ways through \<open>dispatch\<close>, each with the event it logs written out.
\<close>

lemma dispatch_Returned:
  assumes "call_next request ch = (Returned response, ch1)"
  shows "dispatch e call_next request ch =
    (Returned response, ch1 @ [to_dict
      \<lparr> id' = uuid4 e, timestamp = utcnow e, user_id = None, user_role = None,
        action = ''api.request'', resource = path (url request), resource_id = None,
        outcome = (if status_code response < 400 then ''success'' else ''failure''),
        source_ip = headers_get (headers request) ''x-forwarded-for''
              (headers_get (headers request) ''x-real-ip''
                 (case client request of Some c \<Rightarrow> host c | None \<Rightarrow> ''unknown'')),
        user_agent = headers_get (headers request) ''user-agent'' ''unknown'',
        session_id = None,
        details = [ (''method'', PStr (method' request)),
                    (''path'', PStr (path (url request))),
                    (''query'', if query (url request) \<noteq> [] then PStr (query (url request)) else PNone),
                    (''status_code'', PInt (status_code response)),
                    (''response_time_ms'', PNone) ],
        phi_accessed = False \<rparr>])"
  using assms by (simp add: dispatch_def Let_def AuditEvent_init_def log_def)

lemma dispatch_Raised:
  assumes "call_next request ch = (Raised exn, ch1)" and "is_Exception exn"
    and "py_str exn = Inr message"
  shows "dispatch e call_next request ch =
    (Raised exn, ch1 @ [to_dict
      \<lparr> id' = uuid4 e, timestamp = utcnow e, user_id = None, user_role = None,
        action = ''api.request'', resource = path (url request), resource_id = None,
        outcome = ''failure'',
        source_ip = headers_get (headers request) ''x-forwarded-for''
              (headers_get (headers request) ''x-real-ip''
                 (case client request of Some c \<Rightarrow> host c | None \<Rightarrow> ''unknown'')),
        user_agent = headers_get (headers request) ''user-agent'' ''unknown'',
        session_id = None,
        details = [ (''method'', PStr (method' request)),
                    (''path'', PStr (path (url request))),
                    (''query'', if query (url request) \<noteq> [] then PStr (query (url request)) else PNone),
                    (''error'', PStr message),
                    (''exception_type'', PStr (type_name exn)) ],
        phi_accessed = False \<rparr>])"
  using assms by (simp add: dispatch_def Let_def AuditEvent_init_def log_def)

lemma dispatch_str_raises:
  assumes "call_next request ch = (Raised exn, ch1)" and "is_Exception exn"
    and "py_str exn = Inl raised"
  shows "dispatch e call_next request ch = (Raised raised, ch1)"
  using assms by (simp add: dispatch_def Let_def)


lemma logged_cases:
  assumes "intercepted r" and "str_ok r"
  obtains response where "r = Returned response"
  | exn message where "r = Raised exn" and "is_Exception exn" and "py_str exn = Inr message"
  using assms by (cases r) (auto simp: intercepted_def str_ok_def split: sum.splits)

lemma source_ip_lookup:
  "headers_get hs ''x-forwarded-for'' (headers_get hs ''x-real-ip'' peer) =
     (case map_of hs ''x-forwarded-for'' of
        Some v \<Rightarrow> v
      | None \<Rightarrow> (case map_of hs ''x-real-ip'' of Some v \<Rightarrow> v | None \<Rightarrow> peer))"
  by (simp add: headers_get_def)

text \<open>The helper hands the caller's identity and flag to the constructor as given.\<close>

lemma log_audit_event_record:
  "\<exists>rec. log_audit_event e a r oc uid rid d phi ch = ch @ [rec] \<and>
         map_of rec ''user_id'' = Some (opt_str uid) \<and>
         map_of rec ''resource_id'' = Some (opt_str rid) \<and>
         map_of rec ''phi_accessed'' = Some (PBool phi)"
  by (simp add: log_audit_event_def log_def to_dict_def AuditEvent_init_def)

section \<open>The claims\<close>




text \<open>
  C2. When the downstream handler returns a response, the one record the middleware
  emits has outcome "success" if the status code is below 400 and "failure" otherwise.
\<close>

theorem outcome_follows_status_code:
  assumes "call_next request ch = (Returned response, ch1)"
  shows "\<exists>rec. snd (dispatch e call_next request ch) = ch1 @ [rec] \<and>
           map_of rec ''outcome'' =
             Some (PStr (if status_code response < 400 then ''success'' else ''failure''))"
  using assms by (simp add: dispatch_Returned to_dict_def)

theorem outcome_follows_status_code_witness:
  "not_found_handler products_request [] = (Returned not_found_response, []) \<and>
   (\<exists>rec. snd (dispatch example_env not_found_handler products_request []) = [rec] \<and>
          map_of rec ''outcome'' = Some (PStr ''failure''))"
  using outcome_follows_status_code
    [of not_found_handler products_request "[]" not_found_response "[]" example_env]
  by (simp add: not_found_handler_def not_found_response_def)




text \<open>
  C4. The \<open>source_ip\<close> of the emitted record is the value of the
  \<open>x-forwarded-for\<close> header when the request has one; otherwise the value of the
  \<open>x-real-ip\<close> header when it has one; otherwise the host of the peer address when
  there is one; otherwise "unknown".
\<close>

theorem source_ip_precedence:
  assumes "call_next request ch = (r, ch1)" and "intercepted r" and "str_ok r"
  shows "\<exists>rec. snd (dispatch e call_next request ch) = ch1 @ [rec] \<and>
           map_of rec ''source_ip'' = Some (PStr
             (case map_of (headers request) ''x-forwarded-for'' of
                Some forwarded \<Rightarrow> forwarded
              | None \<Rightarrow>
                  (case map_of (headers request) ''x-real-ip'' of
                     Some real_ip \<Rightarrow> real_ip
                   | None \<Rightarrow>
                       (case client request of Some c \<Rightarrow> host c | None \<Rightarrow> ''unknown''))))"
  using assms(2,3)
proof (cases r rule: logged_cases)
  case (1 response)
  with assms(1) show ?thesis
    by (simp add: dispatch_Returned to_dict_def source_ip_lookup)
next
  case (2 exn message)
  with assms(1) show ?thesis
    by (simp add: dispatch_Raised to_dict_def source_ip_lookup)
qed

theorem source_ip_precedence_witness:
  "ok_handler proxied_request [] = (Returned ok_response, []) \<and> intercepted (Returned ok_response) \<and>
   str_ok (Returned ok_response) \<and>
   (\<exists>rec. snd (dispatch example_env ok_handler proxied_request []) = [rec] \<and>
          map_of rec ''source_ip'' = Some (PStr ''203.0.113.5''))"
  using source_ip_precedence
    [of ok_handler proxied_request "[]" "Returned ok_response" "[]" example_env]
  by (simp add: ok_handler_def proxied_request_def intercepted_def str_ok_def)

text \<open>
  C5. In the emitted record, \<open>details.method\<close> and \<open>details.path\<close> are the request's
  method and URL path as they came, and \<open>details.query\<close> is \<open>None\<close> (JSON
  \<open>null\<close>) when the query string is empty and the raw query string otherwise.
\<close>

theorem details_carry_method_path_query:
  assumes "call_next request ch = (r, ch1)" and "intercepted r" and "str_ok r"
  shows "\<exists>rec d. snd (dispatch e call_next request ch) = ch1 @ [rec] \<and>
           map_of rec ''details'' = Some (PDict d) \<and>
           map_of d ''method'' = Some (PStr (method' request)) \<and>
           map_of d ''path'' = Some (PStr (path (url request))) \<and>
           map_of d ''query'' =
             Some (if query (url request) = [] then PNone else PStr (query (url request)))"
  using assms(2,3)
proof (cases r rule: logged_cases)
  case (1 response)
  with assms(1) show ?thesis
    by (simp add: dispatch_Returned to_dict_def)
next
  case (2 exn message)
  with assms(1) show ?thesis
    by (simp add: dispatch_Raised to_dict_def)
qed

theorem details_carry_method_path_query_witness:
  "boom_handler proxied_request [] = (Raised boom, []) \<and> intercepted (Raised boom) \<and>
   str_ok (Raised boom) \<and>
   (\<exists>rec d. snd (dispatch example_env boom_handler proxied_request []) = [rec] \<and>
           map_of rec ''details'' = Some (PDict d) \<and>
           map_of d ''method'' = Some (PStr ''GET'') \<and>
           map_of d ''path'' = Some (PStr ''/api/orders'') \<and>
           map_of d ''query'' = Some (PStr ''page=2''))"
  using details_carry_method_path_query
    [of boom_handler proxied_request "[]" "Raised boom" "[]" example_env]
  by (simp add: boom_handler_def boom_def proxied_request_def intercepted_def str_ok_def)

text \<open>
  C6. When the downstream handler returns a response, the details of the emitted record
  hold the response's status code as a number under \<open>status_code\<close>, and \<open>None\<close>
  under \<open>response_time_ms\<close>, whatever the request and the response are.
\<close>

theorem details_carry_status_code_and_null_latency:
  assumes "call_next request ch = (Returned response, ch1)"
  shows "\<exists>rec d. snd (dispatch e call_next request ch) = ch1 @ [rec] \<and>
           map_of rec ''details'' = Some (PDict d) \<and>
           map_of d ''status_code'' = Some (PInt (status_code response)) \<and>
           map_of d ''response_time_ms'' = Some PNone"
  using assms by (simp add: dispatch_Returned to_dict_def)

theorem details_carry_status_code_and_null_latency_witness:
  "ok_handler products_request [] = (Returned ok_response, []) \<and>
   (\<exists>rec d. snd (dispatch example_env ok_handler products_request []) = [rec] \<and>
           map_of rec ''details'' = Some (PDict d) \<and>
           map_of d ''status_code'' = Some (PInt 200) \<and>
           map_of d ''response_time_ms'' = Some PNone)"
  using details_carry_status_code_and_null_latency
    [of ok_handler products_request "[]" ok_response "[]" example_env]
  by (simp add: ok_handler_def ok_response_def)

text \<open>
  C7. When the downstream handler returns a response, the caller of the middleware
  receives that very response: status code, headers and body as the handler made them.
\<close>

theorem response_returned_unmodified:
  assumes "call_next request ch = (Returned response, ch1)"
  shows "fst (dispatch e call_next request ch) = Returned response"
  using assms by (simp add: dispatch_Returned)

theorem response_returned_unmodified_witness:
  "not_found_handler proxied_request [] = (Returned not_found_response, []) \<and>
   fst (dispatch later_env not_found_handler proxied_request []) =
     Returned \<lparr> status_code = 404, response_headers = [], body = ''Not Found'' \<rparr>"
  using response_returned_unmodified
    [of not_found_handler proxied_request "[]" not_found_response "[]" later_env]
  by (simp add: not_found_handler_def not_found_response_def)

text \<open>
  C8. \<open>to_dict\<close> gives a dictionary with exactly the thirteen keys \<open>id\<close>,
  \<open>timestamp\<close>, \<open>user_id\<close>, \<open>user_role\<close>, \<open>action\<close>, \<open>resource\<close>,
  \<open>resource_id\<close>, \<open>outcome\<close>, \<open>source_ip\<close>, \<open>user_agent\<close>, \<open>session_id\<close>,
  \<open>details\<close>, \<open>phi_accessed\<close>, each bound to the attribute of that name; the details
  are one nested dictionary under the key \<open>details\<close>.
\<close>

theorem to_dict_keys_and_values:
  "map fst (to_dict self) =
     [ ''id'', ''timestamp'', ''user_id'', ''user_role'', ''action'', ''resource'', ''resource_id'',
       ''outcome'', ''source_ip'', ''user_agent'', ''session_id'', ''details'', ''phi_accessed'' ] \<and>
   map_of (to_dict self) ''id'' = Some (PStr (id' self)) \<and>
   map_of (to_dict self) ''timestamp'' = Some (PStr (timestamp self)) \<and>
   map_of (to_dict self) ''user_id'' = Some (opt_str (user_id self)) \<and>
   map_of (to_dict self) ''user_role'' = Some (opt_str (user_role self)) \<and>
   map_of (to_dict self) ''action'' = Some (PStr (action self)) \<and>
   map_of (to_dict self) ''resource'' = Some (PStr (resource self)) \<and>
   map_of (to_dict self) ''resource_id'' = Some (opt_str (resource_id self)) \<and>
   map_of (to_dict self) ''outcome'' = Some (PStr (outcome self)) \<and>
   map_of (to_dict self) ''source_ip'' = Some (PStr (source_ip self)) \<and>
   map_of (to_dict self) ''user_agent'' = Some (PStr (user_agent self)) \<and>
   map_of (to_dict self) ''session_id'' = Some (opt_str (session_id self)) \<and>
   map_of (to_dict self) ''details'' = Some (PDict (details self)) \<and>
   map_of (to_dict self) ''phi_accessed'' = Some (PBool (phi_accessed self))"
  by (simp add: to_dict_def)

text \<open>
  C9. Two calls of \<open>to_dict\<close> on one instance, at any two moments \<open>e1\<close> and
  \<open>e2\<close> of the clock and the identifier source, return the same dictionary, and a
  call leaves the instance as it was. For an instance constructed at the moment
  \<open>e0\<close>, both dictionaries carry the identifier and the timestamp read at \<open>e0\<close>.
\<close>

theorem to_dict_idempotent:
  "fst (call_to_dict e2 (snd (call_to_dict e1 self))) = fst (call_to_dict e1 self) \<and>
   snd (call_to_dict e1 self) = self \<and>
   map_of (fst (call_to_dict e2 (snd (call_to_dict e1
      (AuditEvent_init e0 a r oc uid role rid ip ua sid d phi))))) ''id'' = Some (PStr (uuid4 e0)) \<and>
   map_of (fst (call_to_dict e2 (snd (call_to_dict e1
      (AuditEvent_init e0 a r oc uid role rid ip ua sid d phi))))) ''timestamp'' = Some (PStr (utcnow e0))"
  by (simp add: call_to_dict_def to_dict_def AuditEvent_init_def)

text \<open>
  C10. The record the middleware emits has \<open>user_id\<close>, \<open>user_role\<close>,
  \<open>session_id\<close> and \<open>resource_id\<close> all \<open>None\<close> and \<open>phi_accessed\<close> false,
  whatever the request carries and whatever the handler does.
\<close>

theorem middleware_record_has_no_actor_and_no_phi:
  assumes "call_next request ch = (r, ch1)" and "intercepted r" and "str_ok r"
  shows "\<exists>rec. snd (dispatch e call_next request ch) = ch1 @ [rec] \<and>
           map_of rec ''user_id'' = Some PNone \<and>
           map_of rec ''user_role'' = Some PNone \<and>
           map_of rec ''session_id'' = Some PNone \<and>
           map_of rec ''resource_id'' = Some PNone \<and>
           map_of rec ''phi_accessed'' = Some (PBool False)"
  using assms(2,3)
proof (cases r rule: logged_cases)
  case (1 response)
  with assms(1) show ?thesis
    by (simp add: dispatch_Returned to_dict_def opt_str_def)
next
  case (2 exn message)
  with assms(1) show ?thesis
    by (simp add: dispatch_Raised to_dict_def opt_str_def)
qed

theorem middleware_record_has_no_actor_and_no_phi_witness:
  "ok_handler proxied_request [to_dict login_event] = (Returned ok_response, [to_dict login_event]) \<and>
   intercepted (Returned ok_response) \<and> str_ok (Returned ok_response) \<and>
   (\<exists>rec. snd (dispatch later_env ok_handler proxied_request [to_dict login_event]) =
            [to_dict login_event, rec] \<and>
          map_of rec ''user_id'' = Some PNone \<and>
          map_of rec ''user_role'' = Some PNone \<and>
          map_of rec ''session_id'' = Some PNone \<and>
          map_of rec ''resource_id'' = Some PNone \<and>
          map_of rec ''phi_accessed'' = Some (PBool False))"
  using middleware_record_has_no_actor_and_no_phi
    [of ok_handler proxied_request "[to_dict login_event]" "Returned ok_response"
        "[to_dict login_event]" later_env]
  by (simp add: ok_handler_def intercepted_def str_ok_def)

end
